theory Spec2Isabelle
  imports Main "HOL-Library.AList"
begin

section \<open>JavaScript values\<close>

text \<open>
  The cache of \<^verbatim>\<open>src/lib/cache.ts\<close> stores arbitrary JavaScript values as JSON text in
  \<^verbatim>\<open>localStorage\<close>. Numbers are the integers (all timestamps and durations of the program
  are millisecond counts, on which the arithmetic of doubles is exact) together with
  \<^verbatim>\<open>NaN\<close> and the two infinities. \<open>JBigInt\<close> is a \<^verbatim>\<open>BigInt\<close>, a value that
  \<^verbatim>\<open>JSON.stringify\<close> refuses with a \<^verbatim>\<open>TypeError\<close>; \<open>JDate\<close> is a valid \<^verbatim>\<open>Date\<close> object, by
  its time value (the chat messages carry one); objects are the lists of their own
  properties, in order.
\<close>

datatype jsnum = Fin int | NaN | PosInf | NegInf

datatype jsval =
    JUndefined
  | JNull
  | JBool bool
  | JNum jsnum
  | JStr string
  | JArr "jsval list"
  | JObj "(string \<times> jsval) list"
  | JBigInt int
  | JDate int

text \<open>
  What a \<^verbatim>\<open>throw\<close> or a rejected promise carries: the built-in errors this program can
  meet, \<^verbatim>\<open>new Error(message)\<close> as the API functions throw it, or a value that is not an
  instance of \<^verbatim>\<open>Error\<close>.
\<close>

datatype exn = TypeError | SyntaxError | QuotaExceededError | Error string | Thrown jsval

text \<open>Truthiness (\<^verbatim>\<open>ToBoolean\<close>), as used by \<^verbatim>\<open>if (cacheItem.expiresIn)\<close>.\<close>

fun truthy :: "jsval \<Rightarrow> bool" where
  "truthy JUndefined = False"
| "truthy JNull = False"
| "truthy (JBool b) = b"
| "truthy (JNum (Fin n)) = (n \<noteq> 0)"
| "truthy (JNum NaN) = False"
| "truthy (JNum PosInf) = True"
| "truthy (JNum NegInf) = True"
| "truthy (JStr s) = (s \<noteq> [])"
| "truthy (JArr vs) = True"
| "truthy (JObj ps) = True"
| "truthy (JBigInt n) = (n \<noteq> 0)"
| "truthy (JDate t) = True"

text \<open>
  Reading a property \<^verbatim>\<open>v.p\<close>, for the property names this program reads
  (\<^verbatim>\<open>data\<close>, \<^verbatim>\<open>timestamp\<close>, \<^verbatim>\<open>expiresIn\<close>, \<^verbatim>\<open>quiz\<close>, ...): none of them is a
  property of a primitive, of an array or of \<^verbatim>\<open>Object.prototype\<close>. Reading a property of
  \<^verbatim>\<open>null\<close> or \<^verbatim>\<open>undefined\<close> throws a \<^verbatim>\<open>TypeError\<close>.
\<close>

fun get_member :: "jsval \<Rightarrow> string \<Rightarrow> exn + jsval" where
  "get_member JUndefined p = Inl TypeError"
| "get_member JNull p = Inl TypeError"
| "get_member (JObj ps) p = Inr (case map_of ps p of None \<Rightarrow> JUndefined | Some v \<Rightarrow> v)"
| "get_member v p = Inr JUndefined"

text \<open>Subtraction and \<^verbatim>\<open>></\<close> on numbers; every comparison with \<^verbatim>\<open>NaN\<close> is false.\<close>

fun js_sub :: "jsnum \<Rightarrow> jsnum \<Rightarrow> jsnum" where
  "js_sub (Fin a) (Fin b) = Fin (a - b)"
| "js_sub NaN y = NaN"
| "js_sub x NaN = NaN"
| "js_sub PosInf PosInf = NaN"
| "js_sub NegInf NegInf = NaN"
| "js_sub PosInf y = PosInf"
| "js_sub NegInf y = NegInf"
| "js_sub (Fin a) PosInf = NegInf"
| "js_sub (Fin a) NegInf = PosInf"

fun js_gt :: "jsnum \<Rightarrow> jsnum \<Rightarrow> bool" where
  "js_gt (Fin a) (Fin b) = (a > b)"
| "js_gt NaN y = False"
| "js_gt x NaN = False"
| "js_gt PosInf y = (y \<noteq> PosInf)"
| "js_gt x NegInf = (x \<noteq> NegInf)"
| "js_gt NegInf y = False"
| "js_gt x PosInf = False"


text \<open>The decimal digits of an integer, as \<^verbatim>\<open>toString\<close> and template literals print it.\<close>

definition digit_char :: "nat \<Rightarrow> char" where
  "digit_char n = ''0123456789abcdef'' ! n"

function show_digits :: "int \<Rightarrow> string" where
  "show_digits n =
     (if n < 10 then [digit_char (nat n)]
      else show_digits (n div 10) @ [digit_char (nat (n mod 10))])"
  by pat_completeness auto
termination
  by (relation "measure nat") auto

declare show_digits.simps [simp del]

definition show_int :: "int \<Rightarrow> string" where
  "show_int i = (if i < 0 then CHR ''-'' # show_digits (- i) else show_digits i)"

text \<open>\<^verbatim>\<open>ToString\<close> on the primitives; \<open>None\<close> on arrays, objects and dates.\<close>

fun primitive_to_string :: "jsval \<Rightarrow> string option" where
  "primitive_to_string JUndefined = Some ''undefined''"
| "primitive_to_string JNull = Some ''null''"
| "primitive_to_string (JBool b) = Some (if b then ''true'' else ''false'')"
| "primitive_to_string (JNum (Fin n)) = Some (show_int n)"
| "primitive_to_string (JNum NaN) = Some ''NaN''"
| "primitive_to_string (JNum PosInf) = Some ''Infinity''"
| "primitive_to_string (JNum NegInf) = Some ''-Infinity''"
| "primitive_to_string (JStr s) = Some s"
| "primitive_to_string (JBigInt n) = Some (show_int n)"
| "primitive_to_string v = None"

section \<open>The platform\<close>

text \<open>
  \<^verbatim>\<open>JSON.stringify\<close>, \<^verbatim>\<open>JSON.parse\<close>, the conversion of strings, arrays, objects and dates
  to numbers and to strings, and the quota policy of \<^verbatim>\<open>localStorage\<close> are built-ins of the
  browser, not code of the repository: the program is modelled over any platform.
  \<open>JSON_stringify\<close> is only applied to the object literal built by \<^verbatim>\<open>set\<close>, for which the
  built-in returns a string or throws. The two conversions can throw: \<^verbatim>\<open>ToPrimitive\<close> throws
  a \<^verbatim>\<open>TypeError\<close> on an object whose own \<^verbatim>\<open>toString\<close> property is not callable.
  \<open>quota_allows st k v\<close> says whether \<^verbatim>\<open>setItem(k, v)\<close> is accepted in the store \<open>st\<close>;
  otherwise it throws \<^verbatim>\<open>QuotaExceededError\<close> and stores nothing.
\<close>

record platform =
  JSON_stringify :: "jsval \<Rightarrow> exn + string"
  JSON_parse :: "string \<Rightarrow> exn + jsval"
  ToNumber_other :: "jsval \<Rightarrow> exn + jsnum"
  ToString_other :: "jsval \<Rightarrow> exn + string"
  quota_allows :: "(string \<times> string) list \<Rightarrow> string \<Rightarrow> string \<Rightarrow> bool"

text \<open>
  \<^verbatim>\<open>ToNumber\<close>: fixed on the primitives and on dates (a \<^verbatim>\<open>BigInt\<close> throws, a date gives its
  time value), the platform's on strings, arrays and objects.
\<close>

fun to_number :: "platform \<Rightarrow> jsval \<Rightarrow> exn + jsnum" where
  "to_number env JUndefined = Inr NaN"
| "to_number env JNull = Inr (Fin 0)"
| "to_number env (JBool b) = Inr (Fin (if b then 1 else 0))"
| "to_number env (JNum n) = Inr n"
| "to_number env (JBigInt n) = Inl TypeError"
| "to_number env (JDate t) = Inr (Fin t)"
| "to_number env v = ToNumber_other env v"


subsection \<open>localStorage\<close>

type_synonym storage = "(string \<times> string) list"

definition getItem :: "storage \<Rightarrow> string \<Rightarrow> string option" where
  "getItem st k = map_of st k"

definition setItem :: "platform \<Rightarrow> storage \<Rightarrow> string \<Rightarrow> string \<Rightarrow> exn + storage" where
  "setItem env st k v =
     (if quota_allows env st k v then Inr (AList.update k v st) else Inl QuotaExceededError)"

definition removeItem :: "storage \<Rightarrow> string \<Rightarrow> exn + storage" where
  "removeItem st k = Inr (AList.delete k st)"

text \<open>The state the cache works on: the store and what the console has printed.\<close>

datatype console_line = ErrorLine string exn | LogLine string jsval

record world =
  localStorage :: storage
  console :: "console_line list"

definition console_error :: "string \<Rightarrow> exn \<Rightarrow> world \<Rightarrow> world" where
  "console_error msg e w = w\<lparr>console := console w @ [ErrorLine msg e]\<rparr>"


section \<open>The cache manager (src/lib/cache.ts)\<close>

definition CACHE_PREFIX :: string where
  "CACHE_PREFIX = ''eduseva_''"

datatype CacheKey =
  FLASHCARDS | QUIZ | MINDMAP | SUMMARY | QUESTION_PAPER | PODCAST | CHAT_HISTORY

fun CACHE_KEYS :: "CacheKey \<Rightarrow> string" where
  "CACHE_KEYS FLASHCARDS = ''flashcards''"
| "CACHE_KEYS QUIZ = ''quiz''"
| "CACHE_KEYS MINDMAP = ''mindmap''"
| "CACHE_KEYS SUMMARY = ''summary''"
| "CACHE_KEYS QUESTION_PAPER = ''question_paper''"
| "CACHE_KEYS PODCAST = ''podcast''"
| "CACHE_KEYS CHAT_HISTORY = ''chat_history''"

text \<open>\<^verbatim>\<open>Object.values(CACHE_KEYS)\<close>, in the order of the object literal.\<close>

definition CACHE_KEYS_values :: "CacheKey list" where
  "CACHE_KEYS_values =
     [FLASHCARDS, QUIZ, MINDMAP, SUMMARY, QUESTION_PAPER, PODCAST, CHAT_HISTORY]"

definition getKey :: "CacheKey \<Rightarrow> string" where
  "getKey key = CACHE_PREFIX @ CACHE_KEYS key"

text \<open>
  The optional parameter \<^verbatim>\<open>expiresIn?: number\<close>: \<open>None\<close> when the caller leaves it out,
  which makes the field \<^verbatim>\<open>undefined\<close>.
\<close>

fun optional_number :: "jsnum option \<Rightarrow> jsval" where
  "optional_number None = JUndefined"
| "optional_number (Some n) = JNum n"

definition cacheItem :: "jsval \<Rightarrow> int \<Rightarrow> jsnum option \<Rightarrow> jsval" where
  "cacheItem data now expiresIn =
     JObj [(''data'', data), (''timestamp'', JNum (Fin now)),
           (''expiresIn'', optional_number expiresIn)]"

text \<open>
  Each method is a \<^verbatim>\<open>try\<close> block and its \<^verbatim>\<open>catch\<close>: the \<open>_try\<close> function is the block,
  \<open>Inl\<close> an exception thrown in it; \<open>now\<close> is what \<^verbatim>\<open>Date.now()\<close> returns.
\<close>

definition set_try :: "platform \<Rightarrow> int \<Rightarrow> CacheKey \<Rightarrow> jsval \<Rightarrow> jsnum option \<Rightarrow> world \<Rightarrow> exn + world" where
  "set_try env now key data expiresIn w =
     (case JSON_stringify env (cacheItem data now expiresIn) of
        Inl e \<Rightarrow> Inl e
      | Inr s \<Rightarrow>
          (case setItem env (localStorage w) (getKey key) s of
             Inl e \<Rightarrow> Inl e
           | Inr st \<Rightarrow> Inr (w\<lparr>localStorage := st\<rparr>)))"

definition cache_set :: "platform \<Rightarrow> int \<Rightarrow> CacheKey \<Rightarrow> jsval \<Rightarrow> jsnum option \<Rightarrow> world \<Rightarrow> world" where
  "cache_set env now key data expiresIn w =
     (case set_try env now key data expiresIn w of
        Inr w' \<Rightarrow> w'
      | Inl e \<Rightarrow> console_error ''Error saving to cache:'' e w)"

definition remove_try :: "CacheKey \<Rightarrow> world \<Rightarrow> exn + world" where
  "remove_try key w =
     (case removeItem (localStorage w) (getKey key) of
        Inl e \<Rightarrow> Inl e
      | Inr st \<Rightarrow> Inr (w\<lparr>localStorage := st\<rparr>))"

definition cache_remove :: "CacheKey \<Rightarrow> world \<Rightarrow> world" where
  "cache_remove key w =
     (case remove_try key w of
        Inr w' \<Rightarrow> w'
      | Inl e \<Rightarrow> console_error ''Error removing from cache:'' e w)"

text \<open>
  \<^verbatim>\<open>Date.now() - cacheItem.timestamp > cacheItem.expiresIn\<close>: the subtraction converts the
  timestamp to a number, the comparison then the time-to-live (a \<^verbatim>\<open>BigInt\<close> is compared as
  it is); either conversion can throw.
\<close>

definition isExpired :: "platform \<Rightarrow> int \<Rightarrow> jsval \<Rightarrow> jsval \<Rightarrow> exn + bool" where
  "isExpired env now timestamp expiresIn =
     (case to_number env timestamp of
        Inl e \<Rightarrow> Inl e
      | Inr t \<Rightarrow>
          (case expiresIn of
             JBigInt n \<Rightarrow> Inr (js_gt (js_sub (Fin now) t) (Fin n))
           | _ \<Rightarrow>
               (case to_number env expiresIn of
                  Inl e \<Rightarrow> Inl e
                | Inr ttl \<Rightarrow> Inr (js_gt (js_sub (Fin now) t) ttl))))"

definition get_try :: "platform \<Rightarrow> int \<Rightarrow> CacheKey \<Rightarrow> world \<Rightarrow> exn + (jsval \<times> world)" where
  "get_try env now key w =
     (case getItem (localStorage w) (getKey key) of
        None \<Rightarrow> Inr (JNull, w)
      | Some item \<Rightarrow>
          if item = [] then Inr (JNull, w)
          else
            (case JSON_parse env item of
               Inl e \<Rightarrow> Inl e
             | Inr parsed \<Rightarrow>
                 (case get_member parsed ''expiresIn'' of
                    Inl e \<Rightarrow> Inl e
                  | Inr expiresIn \<Rightarrow>
                      if truthy expiresIn then
                        (case get_member parsed ''timestamp'' of
                           Inl e \<Rightarrow> Inl e
                         | Inr timestamp \<Rightarrow>
                             (case isExpired env now timestamp expiresIn of
                                Inl e \<Rightarrow> Inl e
                              | Inr expired \<Rightarrow>
                                  if expired then Inr (JNull, cache_remove key w)
                                  else
                                    (case get_member parsed ''data'' of
                                       Inl e \<Rightarrow> Inl e
                                     | Inr data \<Rightarrow> Inr (data, w))))
                      else
                        (case get_member parsed ''data'' of
                           Inl e \<Rightarrow> Inl e
                         | Inr data \<Rightarrow> Inr (data, w)))))"

definition cache_get :: "platform \<Rightarrow> int \<Rightarrow> CacheKey \<Rightarrow> world \<Rightarrow> jsval \<times> world" where
  "cache_get env now key w =
     (case get_try env now key w of
        Inr r \<Rightarrow> r
      | Inl e \<Rightarrow> (JNull, console_error ''Error reading from cache:'' e w))"

definition clear_try :: "world \<Rightarrow> exn + world" where
  "clear_try w = Inr (fold cache_remove CACHE_KEYS_values w)"

definition cache_clear :: "world \<Rightarrow> world" where
  "cache_clear w =
     (case clear_try w of
        Inr w' \<Rightarrow> w'
      | Inl e \<Rightarrow> console_error ''Error clearing cache:'' e w)"

definition cache_has :: "platform \<Rightarrow> int \<Rightarrow> CacheKey \<Rightarrow> world \<Rightarrow> bool \<times> world" where
  "cache_has env now key w =
     (case cache_get env now key w of (v, w') \<Rightarrow> (v \<noteq> JNull, w'))"

section \<open>The pages that use the cache\<close>

text \<open>
  The API functions of \<^verbatim>\<open>services/api\<close> are asynchronous: a handler awaits one and goes
  on with the settled promise, a response body or what was thrown. The settled promise is
  the handler's input here.
\<close>

datatype 'a settled = Resolved 'a | Rejected exn

datatype toast = toast_success jsval | toast_error string

text \<open>
  \<^verbatim>\<open>error instanceof Error ? error.message : fallback\<close>. The message of a built-in error
  is the engine's text; the model writes the error's name for it.
\<close>

fun error_message :: "exn \<Rightarrow> string \<Rightarrow> string" where
  "error_message (Error m) fallback = m"
| "error_message (Thrown v) fallback = fallback"
| "error_message TypeError fallback = ''TypeError''"
| "error_message SyntaxError fallback = ''SyntaxError''"
| "error_message QuotaExceededError fallback = ''QuotaExceededError''"

record page =
  toasts :: "toast list"
  store :: world

text \<open>A page with a request under way shows a spinner: the flag \<^verbatim>\<open>isLoading\<close>.\<close>

record controller = page +
  isLoading :: bool




subsection \<open>The upload page (src/components/PDFUpload.tsx)\<close>

datatype upload_status = uploading | processing | completed | error

record File =
  file_name :: string
  file_size :: nat

record UploadedFile =
  uf_id :: string
  uf_name :: string
  uf_size :: nat
  status :: upload_status
  progress :: nat

text \<open>
  Besides the list \<^verbatim>\<open>files\<close> the page has the timers it started: the progress intervals
  still running (by file id), the pending \<^verbatim>\<open>setTimeout\<close> calls (delay and the route their
  callback navigates to) and the route the router is at.
\<close>

record upload_page = page +
  files :: "UploadedFile list"
  intervals :: "string list"
  timeouts :: "(nat \<times> string) list"
  location :: string

text \<open>The callback of the progress interval of the file \<open>fid\<close>.\<close>

definition progress_tick :: "string \<Rightarrow> upload_page \<Rightarrow> upload_page" where
  "progress_tick fid pg =
     pg\<lparr>files := map (\<lambda>f. if uf_id f = fid \<and> progress f < 90
                             then f\<lparr>progress := progress f + 10\<rparr> else f) (files pg)\<rparr>"

text \<open>The \<^verbatim>\<open>catch\<close> block of the loop body.\<close>

definition upload_failed :: "string \<Rightarrow> exn \<Rightarrow> upload_page \<Rightarrow> upload_page" where
  "upload_failed fid err pg =
     pg\<lparr>files := map (\<lambda>f. if uf_id f = fid then f\<lparr>status := error, progress := 0\<rparr> else f)
                   (files pg),
        toasts := toasts pg @ [toast_error (error_message err ''Upload failed'')]\<rparr>"

text \<open>
  One iteration of the loop of \<^verbatim>\<open>processFiles\<close>, for the file \<open>file\<close>: \<open>fid\<close> is the id
  drawn with \<^verbatim>\<open>Math.random\<close>, \<open>ticks\<close> how often the progress interval fires while the
  upload is awaited, \<open>outcome\<close> the settled promise of \<^verbatim>\<open>uploadDocument(file)\<close>.
\<close>

definition process_file :: "File \<times> string \<times> nat \<times> jsval settled \<Rightarrow> upload_page \<Rightarrow> upload_page" where
  "process_file job pg =
     (case job of (file, fid, ticks, outcome) \<Rightarrow>
        let uploadedFile = \<lparr>uf_id = fid, uf_name = file_name file, uf_size = file_size file,
                              status = uploading, progress = 0\<rparr>;
            pg1 = pg\<lparr>files := files pg @ [uploadedFile]\<rparr>;
            pg2 = pg1\<lparr>intervals := intervals pg1 @ [fid]\<rparr>;
            pg3 = (progress_tick fid ^^ ticks) pg2
        in case outcome of
             Rejected err \<Rightarrow> upload_failed fid err pg3
           | Resolved response \<Rightarrow>
               let pg4 = pg3\<lparr>intervals := remove1 fid (intervals pg3)\<rparr>;
                   pg5 = pg4\<lparr>store := cache_clear (store pg4)\<rparr>;
                   pg6 = pg5\<lparr>files := map (\<lambda>f. if uf_id f = fid
                                                 then f\<lparr>status := completed, progress := 100\<rparr>
                                                 else f) (files pg5)\<rparr>
               in case get_member response ''message'' of
                    Inl e \<Rightarrow> upload_failed fid e pg6
                  | Inr message \<Rightarrow>
                      pg6\<lparr>toasts := toasts pg6 @ [toast_success message],
                          timeouts := timeouts pg6 @ [(1000, ''/chat'')]\<rparr>)"

definition processFiles :: "(File \<times> string \<times> nat \<times> jsval settled) list \<Rightarrow> upload_page \<Rightarrow> upload_page" where
  "processFiles fileList pg =
     (if fileList = [] then pg\<lparr>toasts := toasts pg @ [toast_error ''Please select PDF files only'']\<rparr>
      else fold process_file fileList pg)"

text \<open>A pending timeout fires: its callback is \<^verbatim>\<open>navigate(route)\<close>.\<close>

definition fire_timeout :: "nat \<times> string \<Rightarrow> upload_page \<Rightarrow> upload_page" where
  "fire_timeout t pg = pg\<lparr>timeouts := remove1 t (timeouts pg), location := snd t\<rparr>"

subsection \<open>The quiz page (src/pages/Quiz.tsx)\<close>






subsection \<open>The question paper page (src/pages/QuestionPaper.tsx)\<close>






subsection \<open>The flashcards page (FlashcardView)\<close>

record flashcard_page = controller +
  currentIndex :: nat
  isFlipped :: bool
  flashcards :: jsval






subsection \<open>The summary page (src/pages/Summary.tsx)\<close>

record summary_page = controller +
  summary_generated :: bool
  summary :: jsval






subsection \<open>The mindmap page (Mindmap)\<close>





subsection \<open>The podcast page (src/pages/Podcast.tsx)\<close>







subsection \<open>The chat (ChatInterface)\<close>



text \<open>A \<^verbatim>\<open>Message\<close>: its id, role, content and the date of its creation.\<close>

definition message :: "string \<Rightarrow> string \<Rightarrow> jsval \<Rightarrow> int \<Rightarrow> jsval" where
  "message mid role content date =
     JObj [(''id'', JStr mid), (''role'', JStr role), (''content'', content),
           (''timestamp'', JDate date)]"









section \<open>A reference platform\<close>

text \<open>
  A platform to evaluate closed examples on: \<^verbatim>\<open>JSON.stringify\<close> and \<^verbatim>\<open>JSON.parse\<close> on the
  values of the model (number literals with a fraction or an exponent, and \<^verbatim>\<open>\u\<close> escapes
  above 00ff, have no value in the model and are refused), the conversions of a browser
  whose time zone is UTC, and a store that accepts a write when the keys and values it then
  holds have at most \<open>q\<close> characters together. It agrees with a browser on the inputs of
  the examples below.
\<close>

subsection \<open>Dates as text\<close>

definition pad :: "nat \<Rightarrow> int \<Rightarrow> string" where
  "pad n i = replicate (n - length (show_digits i)) (CHR ''0'') @ show_digits i"

text \<open>Year, month and day of a day number counted from 1 January 1970.\<close>

definition civil_from_days :: "int \<Rightarrow> int \<times> int \<times> int" where
  "civil_from_days days =
     (let z = days + 719468;
          era = z div 146097;
          doe = z - era * 146097;
          yoe = (doe - doe div 1460 + doe div 36524 - doe div 146096) div 365;
          doy = doe - (365 * yoe + yoe div 4 - yoe div 100);
          mp = (5 * doy + 2) div 153;
          d = doy - (153 * mp + 2) div 5 + 1;
          m = (if mp < 10 then mp + 3 else mp - 9);
          y = yoe + era * 400 + (if m \<le> 2 then 1 else 0)
      in (y, m, d))"

definition clock_text :: "int \<Rightarrow> string" where
  "clock_text t =
     (let ms = t mod 86400000
      in pad 2 (ms div 3600000) @ '':'' @ pad 2 (ms div 60000 mod 60) @ '':'' @
         pad 2 (ms div 1000 mod 60))"

text \<open>\<^verbatim>\<open>Date.prototype.toISOString\<close>, which \<^verbatim>\<open>JSON.stringify\<close> calls on a date.\<close>

definition iso_string :: "int \<Rightarrow> string" where
  "iso_string t =
     (case civil_from_days (t div 86400000) of
        (y, m, d) \<Rightarrow>
          (if 0 \<le> y \<and> y \<le> 9999 then pad 4 y
           else (if y < 0 then ''-'' else ''+'') @ pad 6 (abs y)) @
          ''-'' @ pad 2 m @ ''-'' @ pad 2 d @ ''T'' @ clock_text t @ ''.'' @
          pad 3 (t mod 1000) @ ''Z'')"

text \<open>\<^verbatim>\<open>Date.prototype.toString\<close> in the time zone UTC.\<close>

definition utc_string :: "int \<Rightarrow> string" where
  "utc_string t =
     (case civil_from_days (t div 86400000) of
        (y, m, d) \<Rightarrow>
          [''Sun'', ''Mon'', ''Tue'', ''Wed'', ''Thu'', ''Fri'', ''Sat'']
            ! nat ((t div 86400000 + 4) mod 7) @ '' '' @
          [''Jan'', ''Feb'', ''Mar'', ''Apr'', ''May'', ''Jun'', ''Jul'', ''Aug'', ''Sep'',
           ''Oct'', ''Nov'', ''Dec''] ! nat (m - 1) @ '' '' @
          pad 2 d @ '' '' @ (if y < 0 then ''-'' else []) @ pad 4 (abs y) @ '' '' @
          clock_text t @ '' GMT+0000 (Coordinated Universal Time)'')"

subsection \<open>JSON text\<close>

definition dquote :: char where "dquote = CHR 0x22"
definition backslash :: char where "backslash = CHR 0x5C"

definition escape_char :: "char \<Rightarrow> string" where
  "escape_char c =
     (if c = dquote then [backslash, dquote]
      else if c = backslash then [backslash, backslash]
      else if c = CHR 0x08 then [backslash, CHR ''b'']
      else if c = CHR 0x0C then [backslash, CHR ''f'']
      else if c = CHR 0x0A then [backslash, CHR ''n'']
      else if c = CHR 0x0D then [backslash, CHR ''r'']
      else if c = CHR 0x09 then [backslash, CHR ''t'']
      else if (of_char c :: nat) < 32
        then [backslash, CHR ''u'', CHR ''0'', CHR ''0'',
              digit_char (of_char c div 16), digit_char (of_char c mod 16)]
      else [c])"

definition json_quote :: "string \<Rightarrow> string" where
  "json_quote s = dquote # concat (map escape_char s) @ [dquote]"

fun join_commas :: "string list \<Rightarrow> string" where
  "join_commas [] = []"
| "join_commas [s] = s"
| "join_commas (s # ss) = s @ '','' @ join_commas ss"

fun json_ser :: "jsval \<Rightarrow> exn + string option"
  and json_ser_elements :: "jsval list \<Rightarrow> exn + string list"
  and json_ser_members :: "(string \<times> jsval) list \<Rightarrow> exn + string list" where
  "json_ser JUndefined = Inr None"
| "json_ser JNull = Inr (Some ''null'')"
| "json_ser (JBool b) = Inr (Some (if b then ''true'' else ''false''))"
| "json_ser (JNum (Fin n)) = Inr (Some (show_int n))"
| "json_ser (JNum NaN) = Inr (Some ''null'')"
| "json_ser (JNum PosInf) = Inr (Some ''null'')"
| "json_ser (JNum NegInf) = Inr (Some ''null'')"
| "json_ser (JStr s) = Inr (Some (json_quote s))"
| "json_ser (JBigInt n) = Inl TypeError"
| "json_ser (JDate t) = Inr (Some (json_quote (iso_string t)))"
| "json_ser (JArr vs) =
     (case json_ser_elements vs of
        Inl e \<Rightarrow> Inl e
      | Inr ss \<Rightarrow> Inr (Some (''['' @ join_commas ss @ '']'')))"
| "json_ser (JObj ps) =
     (case json_ser_members ps of
        Inl e \<Rightarrow> Inl e
      | Inr ss \<Rightarrow> Inr (Some (''{'' @ join_commas ss @ ''}'')))"
| "json_ser_elements [] = Inr []"
| "json_ser_elements (v # vs) =
     (case json_ser v of
        Inl e \<Rightarrow> Inl e
      | Inr r \<Rightarrow>
          (case json_ser_elements vs of
             Inl e \<Rightarrow> Inl e
           | Inr ss \<Rightarrow> Inr ((case r of None \<Rightarrow> ''null'' | Some s \<Rightarrow> s) # ss)))"
| "json_ser_members [] = Inr []"
| "json_ser_members (kv # ps) =
     (case json_ser (snd kv) of
        Inl e \<Rightarrow> Inl e
      | Inr r \<Rightarrow>
          (case json_ser_members ps of
             Inl e \<Rightarrow> Inl e
           | Inr ss \<Rightarrow>
               Inr (case r of None \<Rightarrow> ss | Some s \<Rightarrow> (json_quote (fst kv) @ '':'' @ s) # ss)))"

definition ref_stringify :: "jsval \<Rightarrow> exn + string" where
  "ref_stringify v =
     (case json_ser v of
        Inl e \<Rightarrow> Inl e
      | Inr None \<Rightarrow> Inr ''undefined''
      | Inr (Some s) \<Rightarrow> Inr s)"

definition is_ws :: "char \<Rightarrow> bool" where
  "is_ws c = (c = CHR '' '' \<or> c = CHR 0x09 \<or> c = CHR 0x0A \<or> c = CHR 0x0D)"

definition skip_ws :: "string \<Rightarrow> string" where
  "skip_ws s = dropWhile is_ws s"

definition is_digit :: "char \<Rightarrow> bool" where
  "is_digit c = (48 \<le> (of_char c :: nat) \<and> (of_char c :: nat) \<le> 57)"

definition hex_value :: "char \<Rightarrow> nat option" where
  "hex_value c =
     (let n = (of_char c :: nat) in
      if 48 \<le> n \<and> n \<le> 57 then Some (n - 48)
      else if 97 \<le> n \<and> n \<le> 102 then Some (n - 87)
      else if 65 \<le> n \<and> n \<le> 70 then Some (n - 55)
      else None)"

definition unescape :: "char \<Rightarrow> char option" where
  "unescape e =
     (if e = dquote then Some dquote
      else if e = backslash then Some backslash
      else if e = CHR ''/'' then Some (CHR ''/'')
      else if e = CHR ''b'' then Some (CHR 0x08)
      else if e = CHR ''f'' then Some (CHR 0x0C)
      else if e = CHR ''n'' then Some (CHR 0x0A)
      else if e = CHR ''r'' then Some (CHR 0x0D)
      else if e = CHR ''t'' then Some (CHR 0x09)
      else None)"

definition hex4 :: "string \<Rightarrow> nat option" where
  "hex4 s =
     (if length s < 4 then None
      else
        (case map hex_value (take 4 s) of
           [Some a, Some b, Some c, Some d] \<Rightarrow> Some (4096 * a + 256 * b + 16 * c + d)
         | _ \<Rightarrow> None))"

primrec parse_chars :: "string \<Rightarrow> string \<Rightarrow> (string \<times> string) option" where
  "parse_chars [] s = None"
| "parse_chars (f # fuel) s =
     (if s = [] then None
      else if hd s = dquote then Some ([], tl s)
      else if hd s = backslash then
        (if take 1 (tl s) = ''u'' then
           (case hex4 (drop 2 s) of
              None \<Rightarrow> None
            | Some n \<Rightarrow>
                if n < 256 then
                  (case parse_chars fuel (drop 6 s) of
                     None \<Rightarrow> None
                   | Some (str, r) \<Rightarrow> Some (char_of n # str, r))
                else None)
         else if tl s = [] then None
         else
           (case unescape (hd (tl s)) of
              None \<Rightarrow> None
            | Some ch \<Rightarrow>
                (case parse_chars fuel (drop 2 s) of
                   None \<Rightarrow> None
                 | Some (str, r) \<Rightarrow> Some (ch # str, r))))
      else if (of_char (hd s) :: nat) < 32 then None
      else
        (case parse_chars fuel (tl s) of
           None \<Rightarrow> None
         | Some (str, r) \<Rightarrow> Some (hd s # str, r)))"

definition digits_value :: "string \<Rightarrow> int" where
  "digits_value ds = foldl (\<lambda>a c. 10 * a + int (of_char c - 48)) 0 ds"

definition parse_number :: "string \<Rightarrow> (jsval \<times> string) option" where
  "parse_number s =
     (let neg = (take 1 s = ''-'');
          r = (if neg then drop 1 s else s);
          ds = takeWhile is_digit r;
          rest = dropWhile is_digit r
      in if ds = [] \<or> (length ds > 1 \<and> take 1 ds = ''0'') then None
         else Some (JNum (Fin (if neg then - digits_value ds else digits_value ds)), rest))"

datatype parse_mode = Value | Elements "jsval list" | Members "(string \<times> jsval) list"

primrec parse_json :: "string \<Rightarrow> parse_mode \<Rightarrow> string \<Rightarrow> (jsval \<times> string) option" where
  "parse_json [] m s = None"
| "parse_json (f # fuel) m s =
     (case m of
        Value \<Rightarrow>
          (let s = skip_ws s in
           if take 4 s = ''null'' then Some (JNull, drop 4 s)
           else if take 4 s = ''true'' then Some (JBool True, drop 4 s)
           else if take 5 s = ''false'' then Some (JBool False, drop 5 s)
           else if take 1 s = [dquote] then
             (case parse_chars s (drop 1 s) of
                None \<Rightarrow> None
              | Some (str, r) \<Rightarrow> Some (JStr str, r))
           else if take 1 s = ''['' then
             (let r = skip_ws (drop 1 s) in
              if take 1 r = '']'' then Some (JArr [], drop 1 r)
              else parse_json fuel (Elements []) r)
           else if take 1 s = ''{'' then
             (let r = skip_ws (drop 1 s) in
              if take 1 r = ''}'' then Some (JObj [], drop 1 r)
              else parse_json fuel (Members []) r)
           else parse_number s)
      | Elements acc \<Rightarrow>
          (case parse_json fuel Value s of
             None \<Rightarrow> None
           | Some (v, r) \<Rightarrow>
               (let r = skip_ws r in
                if take 1 r = '','' then parse_json fuel (Elements (acc @ [v])) (drop 1 r)
                else if take 1 r = '']'' then Some (JArr (acc @ [v]), drop 1 r)
                else None))
      | Members acc \<Rightarrow>
          (let s = skip_ws s in
           if take 1 s = [dquote] then
             (case parse_chars s (drop 1 s) of
                None \<Rightarrow> None
              | Some (k, r) \<Rightarrow>
                  (let r = skip_ws r in
                   if take 1 r = '':'' then
                     (case parse_json fuel Value (drop 1 r) of
                        None \<Rightarrow> None
                      | Some (v, r) \<Rightarrow>
                          (let r = skip_ws r in
                           if take 1 r = '','' then
                             parse_json fuel (Members (AList.update k v acc)) (drop 1 r)
                           else if take 1 r = ''}'' then
                             Some (JObj (AList.update k v acc), drop 1 r)
                           else None))
                   else None))
           else None))"

definition ref_parse :: "string \<Rightarrow> exn + jsval" where
  "ref_parse s =
     (case parse_json (s @ s @ ''..'') Value s of
        None \<Rightarrow> Inl SyntaxError
      | Some (v, r) \<Rightarrow> if skip_ws r = [] then Inr v else Inl SyntaxError)"

subsection \<open>The quota and the conversions\<close>

definition storage_size :: "storage \<Rightarrow> nat" where
  "storage_size st = sum_list (map (\<lambda>kv. length (fst kv) + length (snd kv)) st)"

definition quota_policy :: "nat \<Rightarrow> storage \<Rightarrow> string \<Rightarrow> string \<Rightarrow> bool" where
  "quota_policy q st k v = (storage_size (AList.update k v st) \<le> q)"

text \<open>
  \<^verbatim>\<open>ToString\<close> on arrays, objects and dates. An array joins its elements with commas,
  \<^verbatim>\<open>null\<close> and \<^verbatim>\<open>undefined\<close> as the empty string. An object parsed from JSON inherits
  \<^verbatim>\<open>toString\<close> and \<^verbatim>\<open>valueOf\<close> unless it has an own property \<^verbatim>\<open>toString\<close>, which is not
  callable: then no method yields a primitive and a \<^verbatim>\<open>TypeError\<close> is thrown.
\<close>

fun ref_ToString :: "jsval \<Rightarrow> exn + string"
  and ref_join :: "jsval list \<Rightarrow> exn + string" where
  "ref_ToString (JArr vs) = ref_join vs"
| "ref_ToString (JObj ps) =
     (if map_of ps ''toString'' = None then Inr ''[object Object]'' else Inl TypeError)"
| "ref_ToString (JDate t) = Inr (utc_string t)"
| "ref_ToString v = (case primitive_to_string v of None \<Rightarrow> Inr [] | Some s \<Rightarrow> Inr s)"
| "ref_join [] = Inr []"
| "ref_join (v # vs) =
     (case (if v = JUndefined \<or> v = JNull then Inr [] else ref_ToString v) of
        Inl e \<Rightarrow> Inl e
      | Inr s \<Rightarrow>
          (case ref_join vs of
             Inl e \<Rightarrow> Inl e
           | Inr r \<Rightarrow> Inr (if vs = [] then s else s @ '','' @ r)))"

text \<open>
  \<^verbatim>\<open>ToNumber\<close> on strings, and on arrays and objects through their string. Of the numeric
  strings it reads the decimal integers and \<^verbatim>\<open>Infinity\<close>.
\<close>

definition trim :: "string \<Rightarrow> string" where
  "trim s = rev (dropWhile is_ws (rev (dropWhile is_ws s)))"

definition string_to_number :: "string \<Rightarrow> jsnum" where
  "string_to_number s =
     (let t = trim s;
          neg = (take 1 t = ''-'');
          u = (if neg \<or> take 1 t = ''+'' then drop 1 t else t)
      in if t = [] then Fin 0
         else if u = ''Infinity'' then (if neg then NegInf else PosInf)
         else if u \<noteq> [] \<and> list_all is_digit u
           then Fin (if neg then - digits_value u else digits_value u)
         else NaN)"

definition ref_ToNumber :: "jsval \<Rightarrow> exn + jsnum" where
  "ref_ToNumber v =
     (case v of
        JStr s \<Rightarrow> Inr (string_to_number s)
      | _ \<Rightarrow> (case ref_ToString v of Inl e \<Rightarrow> Inl e | Inr s \<Rightarrow> Inr (string_to_number s)))"

definition ref_platform :: "nat \<Rightarrow> platform" where
  "ref_platform q =
     \<lparr>JSON_stringify = ref_stringify, JSON_parse = ref_parse,
      ToNumber_other = ref_ToNumber, ToString_other = ref_ToString,
      quota_allows = quota_policy q\<rparr>"

section \<open>What the claims speak of\<close>

text \<open>An entry is written by \<^verbatim>\<open>set\<close> when its \<^verbatim>\<open>try\<close> block runs to the end.\<close>

definition written :: "platform \<Rightarrow> int \<Rightarrow> CacheKey \<Rightarrow> jsval \<Rightarrow> jsnum option \<Rightarrow> world \<Rightarrow> bool" where
  "written env now key data expiresIn w =
     (case set_try env now key data expiresIn w of Inl e \<Rightarrow> False | Inr w' \<Rightarrow> True)"

text \<open>
  A value is JSON-serializable on a platform when the platform reads the entry built from
  it back as it was written: the data deep-equal, the timestamp, and the time-to-live (an
  absent one stays absent, \<^verbatim>\<open>NaN\<close> and the infinities come back as \<^verbatim>\<open>null\<close>).
\<close>

fun revived_number :: "jsnum option \<Rightarrow> jsval" where
  "revived_number None = JUndefined"
| "revived_number (Some (Fin n)) = JNum (Fin n)"
| "revived_number (Some x) = JNull"

definition reads_back :: "platform \<Rightarrow> jsval \<Rightarrow> int \<Rightarrow> jsnum option \<Rightarrow> bool" where
  "reads_back env data now expiresIn =
     (case JSON_stringify env (cacheItem data now expiresIn) of
        Inl e \<Rightarrow> False
      | Inr s \<Rightarrow>
          s \<noteq> [] \<and>
          (case JSON_parse env s of
             Inl e \<Rightarrow> False
           | Inr parsed \<Rightarrow>
               get_member parsed ''data'' = Inr data \<and>
               get_member parsed ''timestamp'' = Inr (JNum (Fin now)) \<and>
               get_member parsed ''expiresIn'' = Inr (revived_number expiresIn)))"

text \<open>
  The expiry test of \<^verbatim>\<open>get\<close> on a parsed entry: it throws, or it says whether the entry is
  expired.
\<close>

definition expiry_test :: "platform \<Rightarrow> int \<Rightarrow> jsval \<Rightarrow> exn + bool" where
  "expiry_test env now parsed =
     (case get_member parsed ''expiresIn'' of
        Inl e \<Rightarrow> Inl e
      | Inr expiresIn \<Rightarrow>
          if truthy expiresIn then
            (case get_member parsed ''timestamp'' of
               Inl e \<Rightarrow> Inl e
             | Inr timestamp \<Rightarrow> isExpired env now timestamp expiresIn)
          else Inr False)"

text \<open>An upload of the list completed successfully.\<close>

fun job_resolved :: "File \<times> string \<times> nat \<times> jsval settled \<Rightarrow> bool" where
  "job_resolved (file, fid, ticks, Resolved response) = True"
| "job_resolved (file, fid, ticks, Rejected err) = False"




text \<open>The seven keys of the registry, as they are named in the store.\<close>

definition registry_slots :: "string set" where
  "registry_slots =
     {''eduseva_flashcards'', ''eduseva_quiz'', ''eduseva_mindmap'', ''eduseva_summary'',
      ''eduseva_question_paper'', ''eduseva_podcast'', ''eduseva_chat_history''}"

subsection \<open>States of the examples\<close>

definition empty_world :: world where
  "empty_world = \<lparr>localStorage = [], console = []\<rparr>"

text \<open>A store that holds the text \<open>s\<close> in the quiz slot and a key of another application.\<close>

definition quiz_slot_holding :: "string \<Rightarrow> world" where
  "quiz_slot_holding s =
     \<lparr>localStorage = [(''theme'', ''dark''), (''eduseva_quiz'', s)], console = []\<rparr>"

definition stored_text :: "jsval \<Rightarrow> string" where
  "stored_text v = (case ref_stringify v of Inl e \<Rightarrow> [] | Inr s \<Rightarrow> s)"

text \<open>The flashcards and the summary slot populated, at time 1000.\<close>

definition populated_world :: world where
  "populated_world =
     cache_set (ref_platform 1000) 1000 SUMMARY (JObj [(''overall'', JStr ''a summary'')]) None
       (cache_set (ref_platform 1000) 1000 FLASHCARDS
          (JArr [JObj [(''front'', JStr ''f''), (''back'', JStr ''b'')]]) None empty_world)"

definition upload_page_initial :: "world \<Rightarrow> upload_page" where
  "upload_page_initial w =
     \<lparr>toasts = [], store = w, files = [], intervals = [], timeouts = [], location = ''/''\<rparr>"

definition two_uploads :: "(File \<times> string \<times> nat \<times> jsval settled) list" where
  "two_uploads =
     [(\<lparr>file_name = ''notes.pdf'', file_size = 2048\<rparr>, ''k3j2h1g0f'', 4,
       Resolved (JObj [(''success'', JBool True), (''message'', JStr ''uploaded'')])),
      (\<lparr>file_name = ''slides.pdf'', file_size = 4096\<rparr>, ''a9b8c7d6e'', 2,
       Rejected (Error ''Failed to upload document''))]"










text \<open>
  Reading the stored text \<open>s\<close> throws \<open>e\<close> inside the \<^verbatim>\<open>try\<close> block of \<^verbatim>\<open>get\<close>: parsing it
  throws, or the expiry test throws on what it parses to (as it does on \<^verbatim>\<open>null\<close>).
\<close>

definition reading_throws :: "platform \<Rightarrow> int \<Rightarrow> string \<Rightarrow> exn \<Rightarrow> bool" where
  "reading_throws env now s e =
     (case JSON_parse env s of
        Inl e' \<Rightarrow> e' = e
      | Inr parsed \<Rightarrow> expiry_test env now parsed = Inl e)"

section \<open>Facts about the store\<close>

lemma console_error_storage: "localStorage (console_error m e w) = localStorage w"
  by (simp add: console_error_def)

lemma cache_remove_storage:
  "getItem (localStorage (cache_remove key w)) k =
     (if k = getKey key then None else getItem (localStorage w) k)"
  by (simp add: cache_remove_def remove_try_def removeItem_def getItem_def delete_conv')

lemma cache_remove_console: "console (cache_remove key w) = console w"
  by (simp add: cache_remove_def remove_try_def removeItem_def)

lemma fold_remove_storage:
  "getItem (localStorage (fold cache_remove ks w)) k =
     (if k \<in> getKey ` set ks then None else getItem (localStorage w) k)"
  by (induction ks arbitrary: w) (auto simp: cache_remove_storage)

lemma fold_remove_console: "console (fold cache_remove ks w) = console w"
  by (induction ks arbitrary: w) (auto simp: cache_remove_console)

lemma CACHE_KEYS_values_all: "set CACHE_KEYS_values = UNIV"
proof -
  have "key \<in> set CACHE_KEYS_values" for key
    by (cases key) (simp_all add: CACHE_KEYS_values_def)
  then show ?thesis by auto
qed

lemma cache_clear_storage:
  "getItem (localStorage (cache_clear w)) k =
     (if k \<in> range getKey then None else getItem (localStorage w) k)"
  by (simp add: cache_clear_def clear_try_def fold_remove_storage CACHE_KEYS_values_all)

lemma cache_clear_console: "console (cache_clear w) = console w"
  by (simp add: cache_clear_def clear_try_def fold_remove_console)

lemma cache_get_absent:
  "getItem (localStorage w) (getKey key) = None \<Longrightarrow> cache_get env now key w = (JNull, w)"
  by (simp add: cache_get_def get_try_def)

lemma range_getKey:
  "range getKey =
     {''eduseva_flashcards'', ''eduseva_quiz'', ''eduseva_mindmap'', ''eduseva_summary'',
      ''eduseva_question_paper'', ''eduseva_podcast'', ''eduseva_chat_history''}"
proof -
  have "UNIV = {FLASHCARDS, QUIZ, MINDMAP, SUMMARY, QUESTION_PAPER, PODCAST, CHAT_HISTORY}"
    using CacheKey.exhaust by blast
  then have "range getKey =
      getKey ` {FLASHCARDS, QUIZ, MINDMAP, SUMMARY, QUESTION_PAPER, PODCAST, CHAT_HISTORY}"
    by simp
  then show ?thesis by (simp add: getKey_def CACHE_PREFIX_def)
qed

lemma set_try_Inr:
  assumes "set_try env now key data expiresIn w = Inr w'"
  obtains s where "JSON_stringify env (cacheItem data now expiresIn) = Inr s"
    and "w' = w\<lparr>localStorage := AList.update (getKey key) s (localStorage w)\<rparr>"
  using assms
  by (auto simp: set_try_def setItem_def split: sum.splits if_splits)

lemma cache_set_storage_other:
  "k \<noteq> getKey key \<Longrightarrow>
   getItem (localStorage (cache_set env now key data expiresIn w)) k = getItem (localStorage w) k"
  by (auto simp: cache_set_def set_try_def setItem_def getItem_def update_conv'
      console_error_def split: sum.splits if_splits)

lemma get_try_stored:
  assumes "getItem (localStorage w) (getKey key) = Some s" and "s \<noteq> []"
    and "JSON_parse env s = Inr parsed"
    and "expiry_test env now parsed = Inr expired"
    and "get_member parsed ''data'' = Inr data"
  shows "get_try env now key w =
     (if expired then Inr (JNull, cache_remove key w) else Inr (data, w))"
  using assms
  by (auto simp: get_try_def expiry_test_def split: sum.splits if_splits)

lemma get_try_throws:
  assumes "getItem (localStorage w) (getKey key) = Some s" and "s \<noteq> []"
    and "JSON_parse env s = Inr parsed"
    and "expiry_test env now parsed = Inl e"
  shows "get_try env now key w = Inl e"
  using assms
  by (auto simp: get_try_def expiry_test_def split: sum.splits if_splits)

lemma isExpired_numbers:
  "isExpired env now (JNum (Fin t0)) (JNum (Fin ttl)) = Inr (now - t0 > ttl)"
  by (simp add: isExpired_def)

lemma expiry_test_revived:
  assumes "get_member parsed ''timestamp'' = Inr (JNum (Fin t0))"
    and "get_member parsed ''expiresIn'' = Inr (revived_number expiresIn)"
  shows "expiry_test env t1 parsed =
     Inr (case expiresIn of Some (Fin ttl) \<Rightarrow> ttl \<noteq> 0 \<and> t1 - t0 > ttl | _ \<Rightarrow> False)"
proof (cases expiresIn)
  case None
  with assms show ?thesis by (simp add: expiry_test_def)
next
  case (Some n)
  with assms show ?thesis
    by (cases n) (simp_all add: expiry_test_def isExpired_numbers)
qed

lemma get_after_set:
  assumes wr: "written env t0 key data expiresIn w"
    and rb: "reads_back env data t0 expiresIn"
  shows "cache_get env t1 key (cache_set env t0 key data expiresIn w) =
     (if (case expiresIn of Some (Fin ttl) \<Rightarrow> ttl \<noteq> 0 \<and> t1 - t0 > ttl | _ \<Rightarrow> False)
      then (JNull, cache_remove key (cache_set env t0 key data expiresIn w))
      else (data, cache_set env t0 key data expiresIn w))"
proof -
  from wr obtain w' where w': "set_try env t0 key data expiresIn w = Inr w'"
    by (auto simp: written_def split: sum.splits)
  then obtain s where s: "JSON_stringify env (cacheItem data t0 expiresIn) = Inr s"
    and w'_eq: "w' = w\<lparr>localStorage := AList.update (getKey key) s (localStorage w)\<rparr>"
    by (rule set_try_Inr)
  have set_eq: "cache_set env t0 key data expiresIn w = w'"
    by (simp add: cache_set_def w')
  have stored: "getItem (localStorage w') (getKey key) = Some s"
    by (simp add: w'_eq getItem_def update_conv')
  from rb s obtain parsed where p: "s \<noteq> []" "JSON_parse env s = Inr parsed"
    and d: "get_member parsed ''data'' = Inr data"
    and t: "get_member parsed ''timestamp'' = Inr (JNum (Fin t0))"
    and x: "get_member parsed ''expiresIn'' = Inr (revived_number expiresIn)"
    by (auto simp: reads_back_def split: sum.splits)
  have "get_try env t1 key w' =
     (if (case expiresIn of Some (Fin ttl) \<Rightarrow> ttl \<noteq> 0 \<and> t1 - t0 > ttl | _ \<Rightarrow> False)
      then Inr (JNull, cache_remove key w') else Inr (data, w'))"
    using stored p expiry_test_revived [OF t x] d by (rule get_try_stored)
  then show ?thesis
    by (simp add: cache_get_def set_eq)
qed

lemma cache_has_absent:
  "getItem (localStorage w) (getKey key) = None \<Longrightarrow> cache_has env now key w = (False, w)"
  by (simp add: cache_has_def cache_get_absent)

lemma cache_get_after_clear: "cache_get env now key (cache_clear w) = (JNull, cache_clear w)"
  by (simp add: cache_get_absent cache_clear_storage)

lemma progress_ticks_frame:
  "store ((progress_tick fid ^^ n) pg) = store pg \<and>
   timeouts ((progress_tick fid ^^ n) pg) = timeouts pg \<and>
   location ((progress_tick fid ^^ n) pg) = location pg \<and>
   toasts ((progress_tick fid ^^ n) pg) = toasts pg"
  by (induction n) (simp_all add: progress_tick_def)

lemma process_file_storage:
  "localStorage (store (process_file job pg)) =
     (if job_resolved job then localStorage (cache_clear (store pg))
      else localStorage (store pg))"
proof -
  obtain f fid ticks outcome where job: "job = (f, fid, ticks, outcome)"
    by (cases job) auto
  show ?thesis
    by (cases outcome)
      (simp_all add: job process_file_def Let_def upload_failed_def progress_ticks_frame
        split: sum.splits)
qed

lemma fold_process_file_slots:
  assumes "(\<forall>key. getItem (localStorage (store pg)) (getKey key) = None) \<or>
           (\<exists>job \<in> set jobs. job_resolved job)"
  shows "getItem (localStorage (store (fold process_file jobs pg))) (getKey key) = None"
  using assms
proof (induction jobs arbitrary: pg)
  case Nil
  then show ?case by simp
next
  case (Cons job jobs)
  show ?case
  proof (cases "job_resolved job")
    case True
    then have "\<forall>key. getItem (localStorage (store (process_file job pg))) (getKey key) = None"
      by (simp add: process_file_storage cache_clear_storage)
    then show ?thesis
      using Cons.IH [of "process_file job pg"] by simp
  next
    case False
    with Cons.prems
    have "(\<forall>key. getItem (localStorage (store (process_file job pg))) (getKey key) = None) \<or>
          (\<exists>j \<in> set jobs. job_resolved j)"
      by (auto simp: process_file_storage)
    then show ?thesis
      using Cons.IH [of "process_file job pg"] by simp
  qed
qed

section \<open>The claims\<close>

text \<open>
  Claim C1. When the upload of a document completes successfully, the handler clears the
  cache and only then schedules the redirect to the chat: when the loop body returns, the
  store is the cleared one, the route has not changed, the redirect is a pending timeout
  (none when reading the message of the response throws), and \<^verbatim>\<open>get(key)\<close> is a miss for
  every key of the registry, whatever the slots held before the upload; it still is when
  the timeout fires and the router goes to the chat, and when \<^verbatim>\<open>processFiles\<close> has gone
  through a list of files of which one upload completed.
\<close>

theorem upload_clears_cache_before_redirect:
  "store (process_file (file, fid, ticks, Resolved response) pg) = cache_clear (store pg) \<and>
   location (process_file (file, fid, ticks, Resolved response) pg) = location pg \<and>
   timeouts (process_file (file, fid, ticks, Resolved response) pg) =
     timeouts pg @
       (case get_member response ''message'' of Inl e \<Rightarrow> [] | Inr m \<Rightarrow> [(1000, ''/chat'')]) \<and>
   cache_get env now key (store (process_file (file, fid, ticks, Resolved response) pg)) =
     (JNull, cache_clear (store pg)) \<and>
   location (fire_timeout (1000, ''/chat'')
     (process_file (file, fid, ticks, Resolved response) pg)) = ''/chat'' \<and>
   cache_get env now key (store (fire_timeout (1000, ''/chat'')
     (process_file (file, fid, ticks, Resolved response) pg))) = (JNull, cache_clear (store pg)) \<and>
   ((\<exists>job \<in> set fileList. job_resolved job) \<longrightarrow>
      cache_get env now key (store (processFiles fileList pg)) =
        (JNull, store (processFiles fileList pg)))"
proof -
  have st: "store (process_file (file, fid, ticks, Resolved response) pg) = cache_clear (store pg)"
    by (simp add: process_file_def Let_def upload_failed_def progress_ticks_frame
        split: sum.splits)
  have loc: "location (process_file (file, fid, ticks, Resolved response) pg) = location pg"
    by (simp add: process_file_def Let_def upload_failed_def progress_ticks_frame
        split: sum.splits)
  have tm: "timeouts (process_file (file, fid, ticks, Resolved response) pg) =
     timeouts pg @
       (case get_member response ''message'' of Inl e \<Rightarrow> [] | Inr m \<Rightarrow> [(1000, ''/chat'')])"
    by (simp add: process_file_def Let_def upload_failed_def progress_ticks_frame
        split: sum.splits)
  have fired: "store (fire_timeout t p) = store p \<and> location (fire_timeout t p) = snd t"
    for t and p :: upload_page
    by (simp add: fire_timeout_def)
  have loop: "cache_get env now key (store (processFiles fileList pg)) =
      (JNull, store (processFiles fileList pg))"
    if "\<exists>job \<in> set fileList. job_resolved job"
  proof -
    from that have "fileList \<noteq> []" by auto
    then have "processFiles fileList pg = fold process_file fileList pg"
      by (simp add: processFiles_def)
    with that show ?thesis
      by (simp add: cache_get_absent fold_process_file_slots)
  qed
  show ?thesis
    by (simp add: st loc tm fired cache_get_after_clear loop)
qed

text \<open>
  The scenario of the specification: the flashcards and the summary slot are populated, an
  upload completes (a second one fails), and both slots are read as misses.
\<close>

theorem upload_clears_cache_before_redirect_witness:
  "fst (cache_get (ref_platform 1000) 2000 FLASHCARDS populated_world) =
     JArr [JObj [(''front'', JStr ''f''), (''back'', JStr ''b'')]] \<and>
   fst (cache_get (ref_platform 1000) 2000 SUMMARY populated_world) =
     JObj [(''overall'', JStr ''a summary'')] \<and>
   (\<exists>job \<in> set two_uploads. job_resolved job) \<and>
   fst (cache_get (ref_platform 1000) 3000 FLASHCARDS
     (store (processFiles two_uploads (upload_page_initial populated_world)))) = JNull \<and>
   fst (cache_get (ref_platform 1000) 3000 SUMMARY
     (store (processFiles two_uploads (upload_page_initial populated_world)))) = JNull \<and>
   timeouts (processFiles two_uploads (upload_page_initial populated_world)) =
     [(1000, ''/chat'')]"
proof -
  have before: "fst (cache_get (ref_platform 1000) 2000 FLASHCARDS populated_world) =
       JArr [JObj [(''front'', JStr ''f''), (''back'', JStr ''b'')]] \<and>
     fst (cache_get (ref_platform 1000) 2000 SUMMARY populated_world) =
       JObj [(''overall'', JStr ''a summary'')]"
    by code_simp
  have one: "\<exists>job \<in> set two_uploads. job_resolved job"
    by (simp add: two_uploads_def)
  have redirect: "timeouts (processFiles two_uploads (upload_page_initial populated_world)) =
     [(1000, ''/chat'')]"
    by (simp add: two_uploads_def processFiles_def process_file_def upload_failed_def
        upload_page_initial_def progress_ticks_frame Let_def)
  have flashcards: "fst (cache_get (ref_platform 1000) 3000 FLASHCARDS
     (store (processFiles two_uploads (upload_page_initial populated_world)))) = JNull"
    using one upload_clears_cache_before_redirect [of _ _ _ _
        "upload_page_initial populated_world" "ref_platform 1000" 3000 FLASHCARDS two_uploads]
    by simp
  have summary: "fst (cache_get (ref_platform 1000) 3000 SUMMARY
     (store (processFiles two_uploads (upload_page_initial populated_world)))) = JNull"
    using one upload_clears_cache_before_redirect [of _ _ _ _
        "upload_page_initial populated_world" "ref_platform 1000" 3000 SUMMARY two_uploads]
    by simp
  show ?thesis
    using before one redirect flashcards summary by blast
qed

text \<open>
  Claim C2, as amended. For every key, value and finite time-to-live other than 0: if the
  entry was written by \<^verbatim>\<open>set(key, value, ttl)\<close> at time \<open>t0\<close> and reads back as written, and
  \<^verbatim>\<open>get(key)\<close> is invoked at a time \<open>t1\<close> with \<open>t1 - t0 > ttl\<close>, then \<^verbatim>\<open>get\<close> returns the
  miss \<^verbatim>\<open>null\<close> and removes the entry from the store, and a later \<^verbatim>\<open>has(key)\<close> is false.
\<close>

theorem expired_entry_evicted_on_read:
  assumes "ttl \<noteq> 0"
    and "written env t0 key v (Some (Fin ttl)) w"
    and "reads_back env v t0 (Some (Fin ttl))"
    and "t1 - t0 > ttl"
  shows "cache_get env t1 key (cache_set env t0 key v (Some (Fin ttl)) w) =
           (JNull, cache_remove key (cache_set env t0 key v (Some (Fin ttl)) w)) \<and>
         getItem (localStorage (cache_remove key (cache_set env t0 key v (Some (Fin ttl)) w)))
           (getKey key) = None \<and>
         cache_has env t2 key (cache_remove key (cache_set env t0 key v (Some (Fin ttl)) w)) =
           (False, cache_remove key (cache_set env t0 key v (Some (Fin ttl)) w))"
proof -
  have gone: "getItem (localStorage (cache_remove key w')) (getKey key) = None" for w'
    by (simp add: cache_remove_storage)
  have "cache_get env t1 key (cache_set env t0 key v (Some (Fin ttl)) w) =
          (JNull, cache_remove key (cache_set env t0 key v (Some (Fin ttl)) w))"
    using assms by (simp add: get_after_set)
  then show ?thesis
    by (simp add: gone cache_has_absent)
qed

theorem expired_entry_evicted_on_read_witness:
  "written (ref_platform 1000) 1000 QUIZ (JStr ''x'') (Some (Fin 60000)) empty_world \<and>
   reads_back (ref_platform 1000) (JStr ''x'') 1000 (Some (Fin 60000)) \<and>
   cache_get (ref_platform 1000) 70000 QUIZ
     (cache_set (ref_platform 1000) 1000 QUIZ (JStr ''x'') (Some (Fin 60000)) empty_world) =
     (JNull, cache_remove QUIZ
        (cache_set (ref_platform 1000) 1000 QUIZ (JStr ''x'') (Some (Fin 60000)) empty_world)) \<and>
   getItem (localStorage (cache_remove QUIZ
        (cache_set (ref_platform 1000) 1000 QUIZ (JStr ''x'') (Some (Fin 60000)) empty_world)))
     (getKey QUIZ) = None \<and>
   cache_has (ref_platform 1000) 70001 QUIZ (cache_remove QUIZ
        (cache_set (ref_platform 1000) 1000 QUIZ (JStr ''x'') (Some (Fin 60000)) empty_world)) =
     (False, cache_remove QUIZ
        (cache_set (ref_platform 1000) 1000 QUIZ (JStr ''x'') (Some (Fin 60000)) empty_world))"
proof -
  have a: "(60000::int) \<noteq> 0" by simp
  have b: "written (ref_platform 1000) 1000 QUIZ (JStr ''x'') (Some (Fin 60000)) empty_world"
    by code_simp
  have c: "reads_back (ref_platform 1000) (JStr ''x'') 1000 (Some (Fin 60000))"
    by code_simp
  have d: "(70000::int) - 1000 > 60000" by simp
  show ?thesis
    using b c expired_entry_evicted_on_read [OF a b c d, of 70001] by simp
qed

text \<open>
  The claim as stated fails at the time-to-live 0: the entry is written at time 1000, read
  at time 70000, and \<^verbatim>\<open>get\<close> returns the value and \<^verbatim>\<open>has\<close> is true.
\<close>

theorem expired_entry_zero_ttl_counterexample:
  "written (ref_platform 1000) 1000 QUIZ (JStr ''x'') (Some (Fin 0)) empty_world \<and>
   (70000::int) - 1000 > 0 \<and>
   fst (cache_get (ref_platform 1000) 70000 QUIZ
     (cache_set (ref_platform 1000) 1000 QUIZ (JStr ''x'') (Some (Fin 0)) empty_world)) =
     JStr ''x'' \<and>
   fst (cache_has (ref_platform 1000) 70000 QUIZ
     (cache_set (ref_platform 1000) 1000 QUIZ (JStr ''x'') (Some (Fin 0)) empty_world)) = True"
  by code_simp

text \<open>
  Claim C3, as amended. For every registry key and every JSON-serializable value, when the
  write of \<^verbatim>\<open>set(key, value)\<close> is accepted by the store, a \<^verbatim>\<open>get(key)\<close> that follows, at
  whatever time, returns a value equal to the one written and leaves the store as it is.
\<close>

theorem set_then_get_returns_value:
  assumes "written env t0 key v None w" and "reads_back env v t0 None"
  shows "cache_get env t1 key (cache_set env t0 key v None w) =
           (v, cache_set env t0 key v None w)"
  using assms by (simp add: get_after_set)

text \<open>The quiz slot set with three questions and no time-to-live, and read back.\<close>

theorem set_then_get_returns_value_witness:
  "written (ref_platform 1000) 1000 QUIZ
     (JObj [(''questions'', JArr [JStr ''one'', JStr ''two'', JStr ''three'']),
            (''quizId'', JStr ''q-1'')]) None empty_world \<and>
   reads_back (ref_platform 1000)
     (JObj [(''questions'', JArr [JStr ''one'', JStr ''two'', JStr ''three'']),
            (''quizId'', JStr ''q-1'')]) 1000 None \<and>
   fst (cache_get (ref_platform 1000) 1000 QUIZ
     (cache_set (ref_platform 1000) 1000 QUIZ
        (JObj [(''questions'', JArr [JStr ''one'', JStr ''two'', JStr ''three'']),
               (''quizId'', JStr ''q-1'')]) None empty_world)) =
     JObj [(''questions'', JArr [JStr ''one'', JStr ''two'', JStr ''three'']),
           (''quizId'', JStr ''q-1'')]"
proof -
  have a: "written (ref_platform 1000) 1000 QUIZ
     (JObj [(''questions'', JArr [JStr ''one'', JStr ''two'', JStr ''three'']),
            (''quizId'', JStr ''q-1'')]) None empty_world"
    by code_simp
  have b: "reads_back (ref_platform 1000)
     (JObj [(''questions'', JArr [JStr ''one'', JStr ''two'', JStr ''three'']),
            (''quizId'', JStr ''q-1'')]) 1000 None"
    by code_simp
  show ?thesis
    using a b set_then_get_returns_value [OF a b, of 1000] by simp
qed

text \<open>
  The claim as stated fails when the store refuses the write: on a platform whose quota is
  20 characters the value \<^verbatim>\<open>"x"\<close> is JSON-serializable, \<^verbatim>\<open>set\<close> swallows the
  \<^verbatim>\<open>QuotaExceededError\<close>, and the \<^verbatim>\<open>get\<close> that follows returns the miss \<^verbatim>\<open>null\<close>.
\<close>

theorem set_then_get_quota_counterexample:
  "reads_back (ref_platform 20) (JStr ''x'') 1000 None \<and>
   set_try (ref_platform 20) 1000 QUIZ (JStr ''x'') None empty_world = Inl QuotaExceededError \<and>
   fst (cache_get (ref_platform 20) 1000 QUIZ
     (cache_set (ref_platform 20) 1000 QUIZ (JStr ''x'') None empty_world)) = JNull \<and>
   JNull \<noteq> JStr ''x''"
  by code_simp

text \<open>
  Claim C4. \<^verbatim>\<open>clear()\<close> empties every slot of the registry: in whatever state it is called,
  also one in which some or all slots were never set, its \<^verbatim>\<open>try\<close> block throws nothing,
  nothing is logged, and afterwards \<^verbatim>\<open>get(key)\<close> returns the miss \<^verbatim>\<open>null\<close> for each of
  the seven keys.
\<close>

theorem clear_empties_every_slot:
  "clear_try w = Inr (cache_clear w) \<and>
   console (cache_clear w) = console w \<and>
   cache_get env now key (cache_clear w) = (JNull, cache_clear w)"
  by (simp add: cache_get_after_clear cache_clear_console)
     (simp add: cache_clear_def clear_try_def)




text \<open>
  Claim C6, as amended. If the text stored under a key is corrupted so that reading it
  throws (it is syntactically invalid, so that parsing fails, or it parses to \<^verbatim>\<open>null\<close> or
  to an entry on which the expiry test throws), \<^verbatim>\<open>get(key)\<close> does not throw: it returns the
  miss \<^verbatim>\<open>null\<close>, the error is printed on the console and not surfaced to the caller, the
  store is left as it is, and \<^verbatim>\<open>has(key)\<close> is false.
\<close>

theorem unparseable_entry_is_a_miss:
  assumes "getItem (localStorage w) (getKey key) = Some s" and "reading_throws env now s e"
  shows "cache_get env now key w =
           (JNull, if s = [] then w
                   else w\<lparr>console := console w @ [ErrorLine ''Error reading from cache:'' e]\<rparr>) \<and>
         localStorage (snd (cache_get env now key w)) = localStorage w \<and>
         fst (cache_has env now key w) = False"
proof (cases "s = []")
  case True
  with assms(1) show ?thesis
    by (simp add: cache_get_def get_try_def cache_has_def)
next
  case False
  have "get_try env now key w = Inl e"
  proof (cases "JSON_parse env s")
    case (Inl e')
    with assms False show ?thesis
      by (simp add: get_try_def reading_throws_def)
  next
    case (Inr parsed)
    with assms False show ?thesis
      by (simp add: get_try_throws reading_throws_def)
  qed
  with False show ?thesis
    by (simp add: cache_get_def cache_has_def console_error_def)
qed

text \<open>The slot holds a text that does not parse, and the text \<^verbatim>\<open>null\<close>.\<close>

theorem unparseable_entry_is_a_miss_witness:
  "getItem (localStorage (quiz_slot_holding ''{bad'')) (getKey QUIZ) = Some ''{bad'' \<and>
   reading_throws (ref_platform 1000) 1000 ''{bad'' SyntaxError \<and>
   cache_get (ref_platform 1000) 1000 QUIZ (quiz_slot_holding ''{bad'') =
     (JNull, (quiz_slot_holding ''{bad'')
        \<lparr>console := [ErrorLine ''Error reading from cache:'' SyntaxError]\<rparr>) \<and>
   fst (cache_has (ref_platform 1000) 1000 QUIZ (quiz_slot_holding ''{bad'')) = False \<and>
   reading_throws (ref_platform 1000) 1000 ''null'' TypeError \<and>
   cache_get (ref_platform 1000) 1000 QUIZ (quiz_slot_holding ''null'') =
     (JNull, (quiz_slot_holding ''null'')
        \<lparr>console := [ErrorLine ''Error reading from cache:'' TypeError]\<rparr>)"
proof -
  have stored: "getItem (localStorage (quiz_slot_holding s)) (getKey QUIZ) = Some s" for s
    by (simp add: quiz_slot_holding_def getItem_def getKey_def CACHE_PREFIX_def)
  have bad: "reading_throws (ref_platform 1000) 1000 ''{bad'' SyntaxError"
    by code_simp
  have null: "reading_throws (ref_platform 1000) 1000 ''null'' TypeError"
    by code_simp
  have quiet: "console (quiz_slot_holding s) = []" for s
    by (simp add: quiz_slot_holding_def)
  show ?thesis
    using stored [of "''{bad''"] bad null
      unparseable_entry_is_a_miss [OF stored bad]
      unparseable_entry_is_a_miss [OF stored null]
    by (simp add: quiet)
qed

text \<open>
  The claim as stated fails on a corrupted text that parses: the slot holds \<^verbatim>\<open>5\<close>, which is
  no cache entry, and \<^verbatim>\<open>get\<close> returns \<^verbatim>\<open>undefined\<close>, not the miss \<^verbatim>\<open>null\<close>, and
  \<^verbatim>\<open>has\<close> is true.
\<close>

theorem corrupted_parseable_counterexample:
  "JSON_parse (ref_platform 1000) ''5'' = Inr (JNum (Fin 5)) \<and>
   fst (cache_get (ref_platform 1000) 1000 QUIZ (quiz_slot_holding ''5'')) = JUndefined \<and>
   JUndefined \<noteq> JNull \<and>
   fst (cache_has (ref_platform 1000) 1000 QUIZ (quiz_slot_holding ''5'')) = True"
  by code_simp

text \<open>
  Claim C7. \<^verbatim>\<open>set\<close> never fails the caller: on every input it returns a state, the one
  with the entry stored or, when serializing throws or the store refuses the write, the one
  with the line \<^verbatim>\<open>Error saving to cache:\<close> and the error added to the console. In the second
  case the write is dropped: the store, so also the value stored before under the key, is
  unchanged.
\<close>

theorem set_swallows_errors:
  "cache_set env now key data expiresIn w =
     (case JSON_stringify env (cacheItem data now expiresIn) of
        Inl e \<Rightarrow> w\<lparr>console := console w @ [ErrorLine ''Error saving to cache:'' e]\<rparr>
      | Inr s \<Rightarrow>
          if quota_allows env (localStorage w) (getKey key) s
          then w\<lparr>localStorage := AList.update (getKey key) s (localStorage w)\<rparr>
          else w\<lparr>console := console w @
                  [ErrorLine ''Error saving to cache:'' QuotaExceededError]\<rparr>) \<and>
   (set_try env now key data expiresIn w = Inl e \<longrightarrow>
      cache_set env now key data expiresIn w =
        w\<lparr>console := console w @ [ErrorLine ''Error saving to cache:'' e]\<rparr> \<and>
      console (cache_set env now key data expiresIn w) =
        console w @ [ErrorLine ''Error saving to cache:'' e] \<and>
      localStorage (cache_set env now key data expiresIn w) = localStorage w \<and>
      getItem (localStorage (cache_set env now key data expiresIn w)) (getKey key) =
        getItem (localStorage w) (getKey key))"
  by (simp add: cache_set_def set_try_def setItem_def console_error_def split: sum.splits)

text \<open>
  A value that cannot be serialized, and a value that does not fit a store of 50 characters
  in which the slot holds \<^verbatim>\<open>"old"\<close>: the slot still reads \<^verbatim>\<open>"old"\<close>.
\<close>

theorem set_swallows_errors_witness:
  "set_try (ref_platform 50) 1000 QUIZ (JBigInt 5) None empty_world = Inl TypeError \<and>
   cache_set (ref_platform 50) 1000 QUIZ (JBigInt 5) None empty_world =
     empty_world\<lparr>console := [ErrorLine ''Error saving to cache:'' TypeError]\<rparr> \<and>
   set_try (ref_platform 50) 2000 QUIZ (JStr ''a value that does not fit'') None
     (cache_set (ref_platform 50) 1000 QUIZ (JStr ''old'') None empty_world) =
     Inl QuotaExceededError \<and>
   console (cache_set (ref_platform 50) 2000 QUIZ (JStr ''a value that does not fit'') None
     (cache_set (ref_platform 50) 1000 QUIZ (JStr ''old'') None empty_world)) =
     [ErrorLine ''Error saving to cache:'' QuotaExceededError] \<and>
   fst (cache_get (ref_platform 50) 3000 QUIZ
     (cache_set (ref_platform 50) 2000 QUIZ (JStr ''a value that does not fit'') None
        (cache_set (ref_platform 50) 1000 QUIZ (JStr ''old'') None empty_world))) = JStr ''old''"
proof -
  have a: "set_try (ref_platform 50) 1000 QUIZ (JBigInt 5) None empty_world = Inl TypeError"
    by code_simp
  have b: "set_try (ref_platform 50) 2000 QUIZ (JStr ''a value that does not fit'') None
     (cache_set (ref_platform 50) 1000 QUIZ (JStr ''old'') None empty_world) =
     Inl QuotaExceededError"
    by code_simp
  have quiet: "console empty_world = [] \<and>
     console (cache_set (ref_platform 50) 1000 QUIZ (JStr ''old'') None empty_world) = []"
    by code_simp
  have first: "cache_set (ref_platform 50) 1000 QUIZ (JBigInt 5) None empty_world =
     empty_world\<lparr>console := console empty_world @
       [ErrorLine ''Error saving to cache:'' TypeError]\<rparr>"
    using a
      set_swallows_errors [of "ref_platform 50" 1000 QUIZ "JBigInt 5" None empty_world TypeError]
    by blast
  have second: "cache_set (ref_platform 50) 2000 QUIZ (JStr ''a value that does not fit'') None
       (cache_set (ref_platform 50) 1000 QUIZ (JStr ''old'') None empty_world) =
     (cache_set (ref_platform 50) 1000 QUIZ (JStr ''old'') None empty_world)
       \<lparr>console :=
          console (cache_set (ref_platform 50) 1000 QUIZ (JStr ''old'') None empty_world) @
          [ErrorLine ''Error saving to cache:'' QuotaExceededError]\<rparr>"
    using b
      set_swallows_errors [of "ref_platform 50" 2000 QUIZ "JStr ''a value that does not fit''"
        None "cache_set (ref_platform 50) 1000 QUIZ (JStr ''old'') None empty_world"
        QuotaExceededError]
    by blast
  have c: "fst (cache_get (ref_platform 50) 3000 QUIZ
     ((cache_set (ref_platform 50) 1000 QUIZ (JStr ''old'') None empty_world)
        \<lparr>console := [ErrorLine ''Error saving to cache:'' QuotaExceededError]\<rparr>)) = JStr ''old''"
    by code_simp
  show ?thesis
    using a b c by (simp add: first second quiet)
qed

text \<open>
  Claim C8. An entry written with a time-to-live of exactly 0 never expires: at whatever
  time it is read, \<^verbatim>\<open>get(key)\<close> returns the value and evicts nothing, as it does for the
  entry written with no time-to-live.
\<close>

theorem zero_ttl_never_expires:
  assumes "written env t0 key v (Some (Fin 0)) w" and "reads_back env v t0 (Some (Fin 0))"
    and "written env t0 key v None w" and "reads_back env v t0 None"
  shows "cache_get env t1 key (cache_set env t0 key v (Some (Fin 0)) w) =
           (v, cache_set env t0 key v (Some (Fin 0)) w) \<and>
         cache_get env t1 key (cache_set env t0 key v None w) =
           (v, cache_set env t0 key v None w)"
  using assms by (simp add: get_after_set)

theorem zero_ttl_never_expires_witness:
  "written (ref_platform 1000) 1000 SUMMARY (JStr ''x'') (Some (Fin 0)) empty_world \<and>
   reads_back (ref_platform 1000) (JStr ''x'') 1000 (Some (Fin 0)) \<and>
   written (ref_platform 1000) 1000 SUMMARY (JStr ''x'') None empty_world \<and>
   reads_back (ref_platform 1000) (JStr ''x'') 1000 None \<and>
   fst (cache_get (ref_platform 1000) 1700000000000 SUMMARY
     (cache_set (ref_platform 1000) 1000 SUMMARY (JStr ''x'') (Some (Fin 0)) empty_world)) =
     JStr ''x'' \<and>
   fst (cache_get (ref_platform 1000) 1700000000000 SUMMARY
     (cache_set (ref_platform 1000) 1000 SUMMARY (JStr ''x'') None empty_world)) = JStr ''x''"
proof -
  have a: "written (ref_platform 1000) 1000 SUMMARY (JStr ''x'') (Some (Fin 0)) empty_world"
    by code_simp
  have b: "reads_back (ref_platform 1000) (JStr ''x'') 1000 (Some (Fin 0))"
    by code_simp
  have c: "written (ref_platform 1000) 1000 SUMMARY (JStr ''x'') None empty_world"
    by code_simp
  have d: "reads_back (ref_platform 1000) (JStr ''x'') 1000 None"
    by code_simp
  show ?thesis
    using a b c d zero_ttl_never_expires [OF a b c d, of 1700000000000] by simp
qed

text \<open>
  Claim C9, as amended. If the text stored under a key parses to a value other than
  \<^verbatim>\<open>null\<close> whose \<^verbatim>\<open>data\<close> field reads \<^verbatim>\<open>undefined\<close> (a number, a string, a boolean, an
  array, an object with no such field), and the expiry test of \<^verbatim>\<open>get\<close> neither throws nor
  finds it expired, then \<^verbatim>\<open>get(key)\<close> returns \<^verbatim>\<open>undefined\<close>, not the miss \<^verbatim>\<open>null\<close>, and
  \<^verbatim>\<open>has(key)\<close> is true.
\<close>

theorem parseable_entry_without_data_is_a_hit:
  assumes "getItem (localStorage w) (getKey key) = Some s" and "s \<noteq> []"
    and "JSON_parse env s = Inr parsed"
    and "get_member parsed ''data'' = Inr JUndefined"
    and "expiry_test env now parsed = Inr False"
  shows "cache_get env now key w = (JUndefined, w) \<and> cache_has env now key w = (True, w)"
proof -
  from assms have "get_try env now key w = Inr (JUndefined, w)"
    by (simp add: get_try_stored)
  then show ?thesis
    by (simp add: cache_get_def cache_has_def)
qed

text \<open>The slot holds the JSON number \<^verbatim>\<open>5\<close>, the boolean \<^verbatim>\<open>true\<close>, the string \<^verbatim>\<open>"abc"\<close>.\<close>

theorem parseable_entry_without_data_is_a_hit_witness:
  "getItem (localStorage (quiz_slot_holding ''5'')) (getKey QUIZ) = Some ''5'' \<and>
   JSON_parse (ref_platform 1000) ''5'' = Inr (JNum (Fin 5)) \<and>
   get_member (JNum (Fin 5)) ''data'' = Inr JUndefined \<and>
   expiry_test (ref_platform 1000) 1000 (JNum (Fin 5)) = Inr False \<and>
   cache_get (ref_platform 1000) 1000 QUIZ (quiz_slot_holding ''5'') =
     (JUndefined, quiz_slot_holding ''5'') \<and>
   cache_has (ref_platform 1000) 1000 QUIZ (quiz_slot_holding ''5'') =
     (True, quiz_slot_holding ''5'') \<and>
   JSON_parse (ref_platform 1000) ''true'' = Inr (JBool True) \<and>
   cache_has (ref_platform 1000) 1000 QUIZ (quiz_slot_holding ''true'') =
     (True, quiz_slot_holding ''true'') \<and>
   JSON_parse (ref_platform 1000) (json_quote ''abc'') = Inr (JStr ''abc'') \<and>
   cache_has (ref_platform 1000) 1000 QUIZ (quiz_slot_holding (json_quote ''abc'')) =
     (True, quiz_slot_holding (json_quote ''abc''))"
proof -
  have stored: "getItem (localStorage (quiz_slot_holding s)) (getKey QUIZ) = Some s" for s
    by (simp add: quiz_slot_holding_def getItem_def getKey_def CACHE_PREFIX_def)
  have five: "''5'' \<noteq> []" "JSON_parse (ref_platform 1000) ''5'' = Inr (JNum (Fin 5))"
    "get_member (JNum (Fin 5)) ''data'' = Inr JUndefined"
    "expiry_test (ref_platform 1000) 1000 (JNum (Fin 5)) = Inr False"
    by (simp, code_simp, simp, simp add: expiry_test_def)
  have true: "''true'' \<noteq> []" "JSON_parse (ref_platform 1000) ''true'' = Inr (JBool True)"
    "get_member (JBool True) ''data'' = Inr JUndefined"
    "expiry_test (ref_platform 1000) 1000 (JBool True) = Inr False"
    by (simp, code_simp, simp, simp add: expiry_test_def)
  have abc: "json_quote ''abc'' \<noteq> []"
    "JSON_parse (ref_platform 1000) (json_quote ''abc'') = Inr (JStr ''abc'')"
    "get_member (JStr ''abc'') ''data'' = Inr JUndefined"
    "expiry_test (ref_platform 1000) 1000 (JStr ''abc'') = Inr False"
    by (simp add: json_quote_def, code_simp, simp, simp add: expiry_test_def)
  show ?thesis
    using stored [of "''5''"] five true abc
      parseable_entry_without_data_is_a_hit [OF stored five]
      parseable_entry_without_data_is_a_hit [OF stored true]
      parseable_entry_without_data_is_a_hit [OF stored abc]
    by simp
qed

text \<open>
  The claim as stated fails on parseable texts without a \<^verbatim>\<open>data\<close> field that \<^verbatim>\<open>get\<close>
  answers with the miss: the JSON text \<^verbatim>\<open>null\<close>, on which reading a property throws; an
  object that has only an \<^verbatim>\<open>expiresIn\<close> of 5 and a \<^verbatim>\<open>timestamp\<close> of 0, which is found
  expired at time 1000 and evicted; and an object whose \<^verbatim>\<open>expiresIn\<close> is an object with an
  own property \<^verbatim>\<open>toString\<close>, on which the comparison of the expiry test throws.
\<close>

theorem parseable_entry_counterexample:
  "JSON_parse (ref_platform 1000) ''null'' = Inr JNull \<and>
   fst (cache_get (ref_platform 1000) 1000 QUIZ (quiz_slot_holding ''null'')) = JNull \<and>
   fst (cache_has (ref_platform 1000) 1000 QUIZ (quiz_slot_holding ''null'')) = False \<and>
   JSON_parse (ref_platform 1000)
     (stored_text (JObj [(''expiresIn'', JNum (Fin 5)), (''timestamp'', JNum (Fin 0))])) =
     Inr (JObj [(''expiresIn'', JNum (Fin 5)), (''timestamp'', JNum (Fin 0))]) \<and>
   get_member (JObj [(''expiresIn'', JNum (Fin 5)), (''timestamp'', JNum (Fin 0))]) ''data'' =
     Inr JUndefined \<and>
   cache_get (ref_platform 1000) 1000 QUIZ
     (quiz_slot_holding
        (stored_text (JObj [(''expiresIn'', JNum (Fin 5)), (''timestamp'', JNum (Fin 0))]))) =
     (JNull, cache_remove QUIZ (quiz_slot_holding
        (stored_text (JObj [(''expiresIn'', JNum (Fin 5)), (''timestamp'', JNum (Fin 0))])))) \<and>
   fst (cache_has (ref_platform 1000) 1000 QUIZ
     (quiz_slot_holding
        (stored_text (JObj [(''expiresIn'', JNum (Fin 5)), (''timestamp'', JNum (Fin 0))])))) =
     False \<and>
   JSON_parse (ref_platform 1000)
     (stored_text (JObj [(''expiresIn'', JObj [(''toString'', JNull)])])) =
     Inr (JObj [(''expiresIn'', JObj [(''toString'', JNull)])]) \<and>
   cache_get (ref_platform 1000) 1000 QUIZ
     (quiz_slot_holding (stored_text (JObj [(''expiresIn'', JObj [(''toString'', JNull)])]))) =
     (JNull, (quiz_slot_holding
        (stored_text (JObj [(''expiresIn'', JObj [(''toString'', JNull)])])))
        \<lparr>console := [ErrorLine ''Error reading from cache:'' TypeError]\<rparr>) \<and>
   fst (cache_has (ref_platform 1000) 1000 QUIZ
     (quiz_slot_holding (stored_text (JObj [(''expiresIn'', JObj [(''toString'', JNull)])])))) =
     False"
  by code_simp

text \<open>
  Claim C10. \<^verbatim>\<open>clear()\<close> removes exactly the seven keys of the registry, each the prefix
  \<^verbatim>\<open>eduseva_\<close> followed by the name of the slot: a key of the store that is not one of the
  seven is left as it is by \<^verbatim>\<open>clear()\<close>, by \<^verbatim>\<open>remove\<close> and by \<^verbatim>\<open>set\<close>.
\<close>

theorem foreign_keys_untouched:
  "getItem (localStorage (cache_clear w)) k =
     (if k \<in> registry_slots then None else getItem (localStorage w) k) \<and>
   (k \<notin> registry_slots \<longrightarrow>
      getItem (localStorage (cache_remove key w)) k = getItem (localStorage w) k \<and>
      getItem (localStorage (cache_set env now key data expiresIn w)) k =
        getItem (localStorage w) k)"
proof -
  have slots: "registry_slots = range getKey"
    by (simp add: registry_slots_def range_getKey)
  have "k \<noteq> getKey key" if "k \<notin> registry_slots"
    using that by (auto simp: slots)
  then show ?thesis
    by (simp add: cache_clear_storage cache_remove_storage cache_set_storage_other slots)
qed

theorem foreign_keys_untouched_witness:
  "''theme'' \<notin> registry_slots \<and>
   getItem (localStorage (quiz_slot_holding ''5'')) ''theme'' = Some ''dark'' \<and>
   getItem (localStorage (cache_clear (quiz_slot_holding ''5''))) ''theme'' = Some ''dark'' \<and>
   getItem (localStorage (cache_clear (quiz_slot_holding ''5''))) ''eduseva_quiz'' = None \<and>
   getItem (localStorage (cache_remove QUIZ (quiz_slot_holding ''5''))) ''theme'' = Some ''dark'' \<and>
   getItem (localStorage (cache_set (ref_platform 1000) 1000 QUIZ (JStr ''x'') None
     (quiz_slot_holding ''5''))) ''theme'' = Some ''dark''"
proof -
  have a: "''theme'' \<notin> registry_slots"
    by (simp add: registry_slots_def)
  have b: "''eduseva_quiz'' \<in> registry_slots"
    by (simp add: registry_slots_def)
  have c: "getItem (localStorage (quiz_slot_holding ''5'')) ''theme'' = Some ''dark''"
    by (simp add: quiz_slot_holding_def getItem_def)
  show ?thesis
    using a b c
      foreign_keys_untouched [of "quiz_slot_holding ''5''" "''theme''" QUIZ "ref_platform 1000"
        1000 "JStr ''x''" None]
      foreign_keys_untouched [of "quiz_slot_holding ''5''" "''eduseva_quiz''" QUIZ
        "ref_platform 1000" 1000 "JStr ''x''" None]
    by simp
qed

end
